theory Spec2Isabelle
  imports Main "HOL-Library.Word"
begin

section \<open>JavaScript strings\<close>

text \<open>
  A JavaScript string is a sequence of 16-bit code units; \<open>length\<close>, \<open>startsWith\<close>,
  \<open>+\<close> and \<open>trim\<close> all work on code units. ASCII literals of the source are written
  \<open>js ''...''\<close>; the accented letters and symbols of the status messages are given by
  their code units (\<open>0xE9\<close> e acute, \<open>0xE0\<close> a grave, \<open>0x2026\<close> ellipsis,
  \<open>0x2705\<close> check mark).
\<close>

type_synonym jstring = "16 word list"

definition js :: "string \<Rightarrow> jstring" where
  "js s = map (\<lambda>c. of_nat (of_char c)) s"

text \<open>
  \<open>String.prototype.trim\<close> strips the WhiteSpace and LineTerminator code points of
  ECMAScript from both ends: TAB, LF, VT, FF, CR, SP, NBSP, U+1680, U+2000..U+200A,
  U+2028, U+2029, U+202F, U+205F, U+3000 and U+FEFF.
\<close>

definition isWhiteSpace :: "16 word \<Rightarrow> bool" where
  "isWhiteSpace c = (c \<in> set [0x9, 0xA, 0xB, 0xC, 0xD, 0x20, 0xA0, 0x1680,
     0x2000, 0x2001, 0x2002, 0x2003, 0x2004, 0x2005, 0x2006, 0x2007, 0x2008, 0x2009, 0x200A,
     0x2028, 0x2029, 0x202F, 0x205F, 0x3000, 0xFEFF])"

definition trim :: "jstring \<Rightarrow> jstring" where
  "trim s = rev (dropWhile isWhiteSpace (rev (dropWhile isWhiteSpace s)))"

definition startsWith :: "jstring \<Rightarrow> jstring \<Rightarrow> bool" where
  "startsWith s p = (take (length p) s = p)"

section \<open>Network profiles (the constant \<open>CHAINS\<close>)\<close>

datatype chain_key = mainnet | sepolia

record currency_cfg =
  currency_name :: jstring
  symbol :: jstring
  decimals :: nat

record chain_cfg =
  chainIdHex :: jstring
  chainIdDec :: int
  name :: jstring
  rpcUrls :: "jstring list"
  blockExplorer :: jstring
  currency :: currency_cfg

definition CHAINS :: "chain_key \<Rightarrow> chain_cfg" where
  "CHAINS k = (case k of
     mainnet \<Rightarrow>
       \<lparr> chainIdHex = js ''0x1'',
         chainIdDec = 1,
         name = js ''Ethereum Mainnet'',
         rpcUrls = [js ''https://rpc.ankr.com/eth''],
         blockExplorer = js ''https://etherscan.io'',
         currency = \<lparr> currency_name = js ''Ether'', symbol = js ''ETH'', decimals = 18 \<rparr> \<rparr>
   | sepolia \<Rightarrow>
       \<lparr> chainIdHex = js ''0xaa36a7'',
         chainIdDec = 11155111,
         name = js ''Sepolia Testnet'',
         rpcUrls = [js ''https://rpc.ankr.com/eth_sepolia''],
         blockExplorer = js ''https://sepolia.etherscan.io'',
         currency = \<lparr> currency_name = js ''Sepolia Ether'', symbol = js ''SEP'', decimals = 18 \<rparr> \<rparr>)"

definition TEST_BYTECODE :: jstring where
  "TEST_BYTECODE = js ''0x60006000f3''"

section \<open>Session state\<close>

text \<open>
  The seven \<open>useState\<close> cells of \<open>App\<close>. \<open>account\<close> and \<open>currentChainId\<close> start as
  \<open>null\<close>; \<open>None\<close> stands for \<open>null\<close>, \<open>undefined\<close> and (for the chain id) \<open>NaN\<close>,
  which the code never tells apart. \<open>target\<close> is the value of a \<open>select\<close> with the two
  options \<open>sepolia\<close> and \<open>mainnet\<close>.
\<close>

record session =
  account :: "jstring option"
  status :: jstring
  bytecode :: jstring
  txHash :: jstring
  contractAddress :: jstring
  currentChainId :: "int option"
  target :: chain_key

definition initial :: session where
  "initial = \<lparr> account = None, status = [], bytecode = [], txHash = [],
     contractAddress = [], currentChainId = None, target = sepolia \<rparr>"

section \<open>The wallet provider and the signing library\<close>

text \<open>
  A thrown value, as far as the handlers look at it: \<open>err?.code\<close>, \<open>e?.message\<close> and
  \<open>String(e)\<close>. A missing or non-numeric code is \<open>None\<close>; a missing message is \<open>None\<close>.
\<close>

record thrown =
  code :: "int option"
  message :: "jstring option"
  as_string :: jstring

text \<open>\<open>e?.message || String(e)\<close>: the empty string is falsy.\<close>

definition error_text :: "thrown \<Rightarrow> jstring" where
  "error_text e = (case message e of
     None \<Rightarrow> as_string e
   | Some m \<Rightarrow> if m = [] then as_string e else m)"

record add_chain_params =
  chainId :: jstring
  chainName :: jstring
  nativeCurrency :: currency_cfg
  add_rpcUrls :: "jstring list"
  blockExplorerUrls :: "jstring list"

record tx_request =
  data :: jstring
  gasLimit :: nat

record receipt =
  receipt_contractAddress :: "jstring option"

text \<open>
  What \<open>signer.sendTransaction\<close> resolves to: the handle's \<open>hash\<close>, and what its
  \<open>wait()\<close> will do (throw, or resolve to a receipt or \<open>null\<close>).
\<close>

record tx_response =
  hash :: jstring
  wait :: "thrown + receipt option"

text \<open>
  The environment of a handler run: how \<open>window.ethereum.request\<close> answers each method
  and how the \<open>ethers\<close> signer answers. \<open>Inl\<close> is a rejection (or a synchronous throw),
  \<open>Inr\<close> the resolved value. \<open>getSigner\<close> stands for
  \<open>new ethers.BrowserProvider(window.ethereum)\<close> followed by \<open>provider.getSigner()\<close>.
  \<open>window.ethereum\<close> itself may be absent: a handler takes a \<open>provider option\<close>.
  One run of a handler issues each kind of request at most once, so one answer per
  request describes what any wallet does during that run.
\<close>

record provider =
  wallet_switchEthereumChain :: "jstring \<Rightarrow> thrown + unit"
  wallet_addEthereumChain :: "add_chain_params \<Rightarrow> thrown + unit"
  eth_requestAccounts :: "thrown + jstring list"
  getSigner :: "thrown + unit"
  sendTransaction :: "tx_request \<Rightarrow> thrown + tx_response"

text \<open>The requests a handler run issues, in order.\<close>

datatype request =
    SwitchEthereumChain jstring
  | AddEthereumChain add_chain_params
  | RequestAccounts
  | GetSigner
  | SendTransaction tx_request
  | WaitForReceipt

section \<open>Derived view state\<close>

definition explorerBase :: "session \<Rightarrow> jstring" where
  "explorerBase s =
     (if currentChainId s = Some (chainIdDec (CHAINS sepolia)) then blockExplorer (CHAINS sepolia)
      else if currentChainId s = Some (chainIdDec (CHAINS mainnet)) then blockExplorer (CHAINS mainnet)
      else blockExplorer (CHAINS (target s)))"

section \<open>Handlers\<close>

subsection \<open>\<open>ensureNetwork\<close>\<close>

definition status_not_detected :: jstring where
  "status_not_detected = js ''MetaMask non d'' @ [0xE9] @ js ''tect'' @ [0xE9] @ js ''.''"

definition status_switched :: "jstring \<Rightarrow> jstring" where
  "status_switched n =
     js ''R'' @ [0xE9] @ js ''seau bascul'' @ [0xE9] @ js '' sur '' @ n @ js ''.''"

definition status_added :: "jstring \<Rightarrow> jstring" where
  "status_added n =
     js ''R'' @ [0xE9] @ js ''seau '' @ n @ js '' ajout'' @ [0xE9] @ js '' et s'' @ [0xE9]
       @ js ''lectionn'' @ [0xE9] @ js ''.''"

definition status_add_refused :: jstring where
  "status_add_refused =
     js ''Ajout de r'' @ [0xE9] @ js ''seau refus'' @ [0xE9] @ js '' dans MetaMask.''"

definition status_switch_refused :: jstring where
  "status_switch_refused =
     js ''Changement de r'' @ [0xE9] @ js ''seau refus'' @ [0xE9] @ js '' dans MetaMask.''"

definition add_params :: "chain_cfg \<Rightarrow> add_chain_params" where
  "add_params cfg =
     \<lparr> chainId = chainIdHex cfg,
       chainName = name cfg,
       nativeCurrency = currency cfg,
       add_rpcUrls = rpcUrls cfg,
       blockExplorerUrls = [blockExplorer cfg] \<rparr>"

text \<open>
  Returns the boolean of the source, the session after its \<open>setStatus\<close> calls, and the
  requests it issued.
\<close>

definition ensureNetwork :: "provider option \<Rightarrow> chain_key \<Rightarrow> session \<Rightarrow> bool \<times> session \<times> request list" where
  "ensureNetwork env chainKey s =
     (case env of
        None \<Rightarrow> (False, s\<lparr>status := status_not_detected\<rparr>, [])
      | Some eth \<Rightarrow>
          (let cfg = CHAINS chainKey in
           case wallet_switchEthereumChain eth (chainIdHex cfg) of
             Inr _ \<Rightarrow>
               (True, s\<lparr>status := status_switched (name cfg)\<rparr>,
                [SwitchEthereumChain (chainIdHex cfg)])
           | Inl err \<Rightarrow>
               if code err = Some 4902 then
                 (case wallet_addEthereumChain eth (add_params cfg) of
                    Inr _ \<Rightarrow>
                      (True, s\<lparr>status := status_added (name cfg)\<rparr>,
                       [SwitchEthereumChain (chainIdHex cfg), AddEthereumChain (add_params cfg)])
                  | Inl e2 \<Rightarrow>
                      (False, s\<lparr>status := status_add_refused\<rparr>,
                       [SwitchEthereumChain (chainIdHex cfg), AddEthereumChain (add_params cfg)]))
               else
                 (False, s\<lparr>status := status_switch_refused\<rparr>,
                  [SwitchEthereumChain (chainIdHex cfg)])))"

subsection \<open>\<open>connectWallet\<close>\<close>

definition status_install_first :: jstring where
  "status_install_first =
     js ''MetaMask n'' @ [0x27] @ js ''est pas d'' @ [0xE9] @ js ''tect'' @ [0xE9]
       @ js ''. Installe-le d'' @ [0x27] @ js ''abord.''"

definition status_connected :: jstring where
  "status_connected = js ''Wallet connect'' @ [0xE9] @ js ''.''"

definition status_connect_error :: "thrown \<Rightarrow> jstring" where
  "status_connect_error e = js ''Erreur connexion: '' @ error_text e"

text \<open>
  The body of the \<open>try\<close>: the session and the requests up to the point where the body
  returns or throws, and the value thrown, if any. \<open>accounts[0]\<close> of an empty array is
  \<open>undefined\<close>.
\<close>

definition connectWallet_try :: "provider option \<Rightarrow> session \<Rightarrow> session \<times> request list \<times> thrown option" where
  "connectWallet_try env s =
     (case env of
        None \<Rightarrow> (s\<lparr>status := status_install_first\<rparr>, [], None)
      | Some eth \<Rightarrow>
          (case ensureNetwork env (target s) s of
             (ok, s1, rs1) \<Rightarrow>
               if \<not> ok then (s1, rs1, None)
               else
                 (case eth_requestAccounts eth of
                    Inl e \<Rightarrow> (s1, rs1 @ [RequestAccounts], Some e)
                  | Inr accounts \<Rightarrow>
                      (s1\<lparr>account := (case accounts of [] \<Rightarrow> None | a # _ \<Rightarrow> Some a),
                          status := status_connected\<rparr>,
                       rs1 @ [RequestAccounts], None))))"

definition connectWallet :: "provider option \<Rightarrow> session \<Rightarrow> session \<times> request list" where
  "connectWallet env s =
     (case connectWallet_try env s of
        (s', rs, None) \<Rightarrow> (s', rs)
      | (s', rs, Some e) \<Rightarrow> (s'\<lparr>status := status_connect_error e\<rparr>, rs))"

subsection \<open>\<open>fillTestBytecode\<close>, reset, disconnect, target selection\<close>

definition status_test_inserted :: jstring where
  "status_test_inserted =
     js ''Bytecode de test ins'' @ [0xE9] @ js ''r'' @ [0xE9]
       @ js '' (contrat vide). Tu peux d'' @ [0xE9] @ js ''ployer.''"

definition fillTestBytecode :: "session \<Rightarrow> session" where
  "fillTestBytecode s = s\<lparr>bytecode := TEST_BYTECODE, status := status_test_inserted\<rparr>"

definition setTarget :: "chain_key \<Rightarrow> session \<Rightarrow> session" where
  "setTarget k s = s\<lparr>target := k\<rparr>"

text \<open>The \<open>onClick\<close> of the reset button.\<close>

definition reset :: "session \<Rightarrow> session \<times> request list" where
  "reset s = (s\<lparr>bytecode := [], status := [], txHash := [], contractAddress := []\<rparr>, [])"

definition status_disconnected :: jstring where
  "status_disconnected = js ''D'' @ [0xE9] @ js ''connect'' @ [0xE9] @ js ''.''"

text \<open>The \<open>onClick\<close> of the disconnect button.\<close>

definition disconnect :: "session \<Rightarrow> session \<times> request list" where
  "disconnect s = (s\<lparr>account := None, status := status_disconnected\<rparr>, [])"

subsection \<open>\<open>deployContract\<close>\<close>

definition status_metamask_required :: jstring where
  "status_metamask_required = js ''MetaMask requis.''"

definition status_invalid_bytecode :: jstring where
  "status_invalid_bytecode =
     js ''Colle un creation bytecode valide (0x...), ou clique '' @ [0x27]
       @ js ''Remplir un bytecode de test'' @ [0x27] @ js ''.''"

definition status_preparing :: jstring where
  "status_preparing =
     js ''Pr'' @ [0xE9] @ js ''paration de la transaction'' @ [0x2026] @ js '' v'' @ [0xE9]
       @ js ''rifie MetaMask.''"

definition status_sent :: jstring where
  "status_sent =
     js ''Transaction envoy'' @ [0xE9] @ js ''e. Attente de confirmation'' @ [0x2026]"

definition status_confirmed :: "jstring \<Rightarrow> jstring" where
  "status_confirmed addr =
     js ''Confirm'' @ [0xE9] @ js '' '' @ [0x2705] @ js '' Contrat d'' @ [0xE9] @ js ''ploy''
       @ [0xE9] @ js '' '' @ [0xE0] @ js '' '' @ addr"

definition status_no_address :: jstring where
  "status_no_address =
     js ''Confirm'' @ [0xE9] @ js '', mais pas d'' @ [0x27]
       @ js ''adresse de contrat (bytecode probablement non-cr'' @ [0xE9] @ js ''ateur).''"

definition status_error :: "thrown \<Rightarrow> jstring" where
  "status_error e = js ''Erreur: '' @ error_text e"

text \<open>\<open>bytecode.startsWith("0x") ? bytecode : "0x" + bytecode\<close>\<close>

definition dataHex :: "jstring \<Rightarrow> jstring" where
  "dataHex b = (if startsWith b (js ''0x'') then b else js ''0x'' @ b)"

text \<open>\<open>receipt?.contractAddress || ""\<close>\<close>

definition receipt_addr :: "receipt option \<Rightarrow> jstring" where
  "receipt_addr r = (case r of
     None \<Rightarrow> []
   | Some rc \<Rightarrow> (case receipt_contractAddress rc of None \<Rightarrow> [] | Some a \<Rightarrow> a))"

text \<open>
  The body of the \<open>try\<close>, entered after the three clearing setters: the session and the
  requests up to the point where the body returns or throws, and the value thrown, if any.
\<close>

definition deployContract_try :: "provider option \<Rightarrow> session \<Rightarrow> session \<times> request list \<times> thrown option" where
  "deployContract_try env s0 =
     (case env of
        None \<Rightarrow> (s0\<lparr>status := status_metamask_required\<rparr>, [], None)
      | Some eth \<Rightarrow>
          if bytecode s0 = [] \<or> length (trim (bytecode s0)) < 4 then
            (s0\<lparr>status := status_invalid_bytecode\<rparr>, [], None)
          else
            (case ensureNetwork env sepolia s0 of
               (ok, s1, rs1) \<Rightarrow>
                 if \<not> ok then (s1, rs1, None)
                 else
                   (case getSigner eth of
                      Inl e \<Rightarrow> (s1, rs1 @ [GetSigner], Some e)
                    | Inr _ \<Rightarrow>
                        (let req = \<lparr> data = dataHex (bytecode s0), gasLimit = 70000 \<rparr>;
                             s2 = s1\<lparr>status := status_preparing\<rparr>
                         in case sendTransaction eth req of
                              Inl e \<Rightarrow> (s2, rs1 @ [GetSigner, SendTransaction req], Some e)
                            | Inr tx \<Rightarrow>
                                (let s3 = s2\<lparr>txHash := hash tx, status := status_sent\<rparr>
                                 in case wait tx of
                                      Inl e \<Rightarrow>
                                        (s3, rs1 @ [GetSigner, SendTransaction req, WaitForReceipt],
                                         Some e)
                                    | Inr rcpt \<Rightarrow>
                                        (let addr = receipt_addr rcpt
                                         in (s3\<lparr>contractAddress := addr,
                                                status := (if addr \<noteq> [] then status_confirmed addr
                                                           else status_no_address)\<rparr>,
                                             rs1 @ [GetSigner, SendTransaction req, WaitForReceipt],
                                             None)))))))"

definition deployContract :: "provider option \<Rightarrow> session \<Rightarrow> session \<times> request list" where
  "deployContract env s =
     (case deployContract_try env (s\<lparr>status := [], txHash := [], contractAddress := []\<rparr>) of
        (s', rs, None) \<Rightarrow> (s', rs)
      | (s', rs, Some e) \<Rightarrow> (s'\<lparr>status := status_error e\<rparr>, rs))"

subsection \<open>The order of effects in \<open>deployContract\<close>\<close>

text \<open>
  The functions above give the session and the requests at the end of a run. To speak
  about what happens first, the same two functions are written once more as the list of
  their effects in the order of the source: each setter call and each request.
\<close>

datatype event =
    SetStatus jstring
  | SetTxHash jstring
  | SetContractAddress jstring
  | Request request

text \<open>What one effect does to the session; a request leaves it as it is.\<close>

fun apply_event :: "event \<Rightarrow> session \<Rightarrow> session" where
  "apply_event (SetStatus v) s = s\<lparr>status := v\<rparr>"
| "apply_event (SetTxHash v) s = s\<lparr>txHash := v\<rparr>"
| "apply_event (SetContractAddress v) s = s\<lparr>contractAddress := v\<rparr>"
| "apply_event (Request r) s = s"

definition replay :: "event list \<Rightarrow> session \<Rightarrow> session" where
  "replay evs s = foldl (\<lambda>s e. apply_event e s) s evs"

fun isRequest :: "event \<Rightarrow> bool" where
  "isRequest (Request r) = True"
| "isRequest _ = False"

fun requests :: "event list \<Rightarrow> request list" where
  "requests [] = []"
| "requests (Request r # evs) = r # requests evs"
| "requests (_ # evs) = requests evs"

text \<open>The setter calls that precede the first request of a run.\<close>

definition before_first_request :: "event list \<Rightarrow> event list" where
  "before_first_request evs = takeWhile (\<lambda>e. \<not> isRequest e) evs"

text \<open>
  \<open>ensureNetwork\<close>: each \<open>setStatus\<close> comes after the request whose outcome it reports.
\<close>

definition ensureNetwork_log :: "provider option \<Rightarrow> chain_key \<Rightarrow> bool \<times> event list" where
  "ensureNetwork_log env chainKey =
     (case env of
        None \<Rightarrow> (False, [SetStatus status_not_detected])
      | Some eth \<Rightarrow>
          (let cfg = CHAINS chainKey in
           case wallet_switchEthereumChain eth (chainIdHex cfg) of
             Inr _ \<Rightarrow>
               (True, [Request (SwitchEthereumChain (chainIdHex cfg)),
                       SetStatus (status_switched (name cfg))])
           | Inl err \<Rightarrow>
               if code err = Some 4902 then
                 (case wallet_addEthereumChain eth (add_params cfg) of
                    Inr _ \<Rightarrow>
                      (True, [Request (SwitchEthereumChain (chainIdHex cfg)),
                              Request (AddEthereumChain (add_params cfg)),
                              SetStatus (status_added (name cfg))])
                  | Inl e2 \<Rightarrow>
                      (False, [Request (SwitchEthereumChain (chainIdHex cfg)),
                               Request (AddEthereumChain (add_params cfg)),
                               SetStatus status_add_refused]))
               else
                 (False, [Request (SwitchEthereumChain (chainIdHex cfg)),
                          SetStatus status_switch_refused])))"

text \<open>
  The body of the \<open>try\<close> of \<open>deployContract\<close>; it reads the payload of the session it
  was called from.
\<close>

definition deployContract_try_log :: "provider option \<Rightarrow> session \<Rightarrow> event list \<times> thrown option" where
  "deployContract_try_log env s =
     (case env of
        None \<Rightarrow> ([SetStatus status_metamask_required], None)
      | Some eth \<Rightarrow>
          if bytecode s = [] \<or> length (trim (bytecode s)) < 4 then
            ([SetStatus status_invalid_bytecode], None)
          else
            (case ensureNetwork_log env sepolia of
               (ok, evs1) \<Rightarrow>
                 if \<not> ok then (evs1, None)
                 else
                   (case getSigner eth of
                      Inl e \<Rightarrow> (evs1 @ [Request GetSigner], Some e)
                    | Inr _ \<Rightarrow>
                        (let req = \<lparr> data = dataHex (bytecode s), gasLimit = 70000 \<rparr>;
                             evs2 = evs1 @ [Request GetSigner, SetStatus status_preparing,
                                            Request (SendTransaction req)]
                         in case sendTransaction eth req of
                              Inl e \<Rightarrow> (evs2, Some e)
                            | Inr tx \<Rightarrow>
                                (let evs3 = evs2 @ [SetTxHash (hash tx), SetStatus status_sent,
                                                    Request WaitForReceipt]
                                 in case wait tx of
                                      Inl e \<Rightarrow> (evs3, Some e)
                                    | Inr rcpt \<Rightarrow>
                                        (let addr = receipt_addr rcpt
                                         in (evs3 @ [SetContractAddress addr,
                                                     SetStatus (if addr \<noteq> [] then status_confirmed addr
                                                                else status_no_address)],
                                             None)))))))"

text \<open>
  \<open>deployContract\<close>: \<open>setStatus("")\<close>, \<open>setTxHash("")\<close> and \<open>setContractAddress("")\<close>,
  then the \<open>try\<close>, then the \<open>setStatus\<close> of the \<open>catch\<close> if the body threw.
\<close>

definition deployContract_log :: "provider option \<Rightarrow> session \<Rightarrow> event list" where
  "deployContract_log env s =
     [SetStatus [], SetTxHash [], SetContractAddress []] @
     (case deployContract_try_log env s of
        (evs, None) \<Rightarrow> evs
      | (evs, Some e) \<Rightarrow> evs @ [SetStatus (status_error e)])"

section \<open>Sample environments\<close>

text \<open>Concrete wallets on which the theorems below are exercised.\<close>

definition rejected :: "int \<Rightarrow> jstring \<Rightarrow> thrown" where
  "rejected c m = \<lparr> code = Some c, message = Some m, as_string = js ''Error: '' @ m \<rparr>"

definition sample_tx :: tx_response where
  "sample_tx = \<lparr> hash = js ''0xfeed'',
     wait = Inr (Some \<lparr> receipt_contractAddress = Some (js ''0xc0de'') \<rparr>) \<rparr>"

text \<open>A wallet that grants everything.\<close>

definition wallet_ok :: provider where
  "wallet_ok = \<lparr> wallet_switchEthereumChain = (\<lambda>_. Inr ()),
     wallet_addEthereumChain = (\<lambda>_. Inr ()),
     eth_requestAccounts = Inr [js ''0xa11ce'', js ''0xb0b''],
     getSigner = Inr (),
     sendTransaction = (\<lambda>_. Inr sample_tx) \<rparr>"

text \<open>A wallet that does not know the chain (4902) and accepts adding it.\<close>

definition wallet_unknown_chain :: provider where
  "wallet_unknown_chain =
     wallet_ok\<lparr> wallet_switchEthereumChain := (\<lambda>_. Inl (rejected 4902 (js ''Unrecognized chain ID''))) \<rparr>"

text \<open>A wallet whose user refuses the switch (4001).\<close>

definition wallet_refuses :: provider where
  "wallet_refuses =
     wallet_ok\<lparr> wallet_switchEthereumChain := (\<lambda>_. Inl (rejected 4001 (js ''User rejected the request''))) \<rparr>"

text \<open>A wallet that broadcasts the transaction, whose confirmation then fails.\<close>

definition wallet_wait_fails :: provider where
  "wallet_wait_fails =
     wallet_ok\<lparr> sendTransaction :=
       (\<lambda>_. Inr \<lparr> hash = js ''0xfeed'', wait = Inl (rejected 0 (js ''transaction failed'')) \<rparr>) \<rparr>"

section \<open>Auxiliary facts\<close>

lemmas string_defs = js_def trim_def isWhiteSpace_def startsWith_def dataHex_def

lemmas sample_defs =
  wallet_ok_def wallet_unknown_chain_def wallet_refuses_def wallet_wait_fails_def
  sample_tx_def rejected_def initial_def TEST_BYTECODE_def CHAINS_def

lemma sepolia_chainIdHex: "chainIdHex (CHAINS sepolia) = js ''0xaa36a7''"
  by (simp add: CHAINS_def)

lemma ensureNetwork_requests:
  "ensureNetwork env k s = (ok, s1, rs1) \<Longrightarrow>
     RequestAccounts \<notin> set rs1 \<and> GetSigner \<notin> set rs1 \<and> WaitForReceipt \<notin> set rs1
     \<and> SendTransaction req \<notin> set rs1"
  by (auto simp: ensureNetwork_def Let_def split: option.splits sum.splits if_splits)

lemma ensureNetwork_first_request:
  "ensureNetwork (Some eth) k s = (ok, s1, rs1) \<Longrightarrow>
     \<exists>more. rs1 = SwitchEthereumChain (chainIdHex (CHAINS k)) # more"
  by (auto simp: ensureNetwork_def Let_def split: sum.splits if_splits)

lemma ensureNetwork_target:
  "ensureNetwork env k (s\<lparr>target := t\<rparr>) =
     (case ensureNetwork env k s of (ok, s1, rs1) \<Rightarrow> (ok, s1\<lparr>target := t\<rparr>, rs1))"
  by (simp add: ensureNetwork_def Let_def split: option.splits sum.splits)

lemma deployContract_absent:
  "deployContract None s =
     (s\<lparr>status := status_metamask_required, txHash := [], contractAddress := []\<rparr>, [])"
  by (simp add: deployContract_def deployContract_try_def)

lemma deployContract_invalid:
  "length (trim (bytecode s)) < 4 \<Longrightarrow>
   deployContract (Some eth) s =
     (s\<lparr>status := status_invalid_bytecode, txHash := [], contractAddress := []\<rparr>, [])"
  by (simp add: deployContract_def deployContract_try_def)

lemma trim_nonempty: "4 \<le> length (trim b) \<Longrightarrow> b \<noteq> []"
  by (auto simp: trim_def)

lemma deployContract_requests:
  assumes "4 \<le> length (trim (bytecode s))"
    and "ensureNetwork (Some eth) sepolia (s\<lparr>status := [], txHash := [], contractAddress := []\<rparr>) = (ok, s1, rs1)"
  shows "snd (deployContract (Some eth) s) =
     (if \<not> ok then rs1
      else case getSigner eth of
        Inl e \<Rightarrow> rs1 @ [GetSigner]
      | Inr _ \<Rightarrow>
         (case sendTransaction eth \<lparr> data = dataHex (bytecode s), gasLimit = 70000 \<rparr> of
            Inl e \<Rightarrow> rs1 @ [GetSigner, SendTransaction \<lparr> data = dataHex (bytecode s), gasLimit = 70000 \<rparr>]
          | Inr tx \<Rightarrow>
              rs1 @ [GetSigner, SendTransaction \<lparr> data = dataHex (bytecode s), gasLimit = 70000 \<rparr>,
                     WaitForReceipt]))"
  using assms trim_nonempty [OF assms(1)]
  by (simp add: deployContract_def deployContract_try_def Let_def split: sum.split)

lemma ensureNetwork_wallet_ok:
  "ensureNetwork (Some wallet_ok) sepolia s =
     (True, s\<lparr>status := status_switched (js ''Sepolia Testnet'')\<rparr>,
      [SwitchEthereumChain (js ''0xaa36a7'')])"
  by (simp add: ensureNetwork_def wallet_ok_def CHAINS_def Let_def)

lemma ensureNetwork_wallet_wait_fails:
  "ensureNetwork (Some wallet_wait_fails) sepolia s =
     (True, s\<lparr>status := status_switched (js ''Sepolia Testnet'')\<rparr>,
      [SwitchEthereumChain (js ''0xaa36a7'')])"
  by (simp add: ensureNetwork_def wallet_wait_fails_def wallet_ok_def CHAINS_def Let_def)

lemma ensureNetwork_wallet_refuses:
  "ensureNetwork (Some wallet_refuses) sepolia s =
     (False, s\<lparr>status := status_switch_refused\<rparr>, [SwitchEthereumChain (js ''0xaa36a7'')])"
  by (simp add: ensureNetwork_def wallet_refuses_def wallet_ok_def rejected_def CHAINS_def Let_def)

lemma trim_sample: "trim (js ''60006000f3'') = js ''60006000f3''"
  by (simp add: string_defs)

lemma trim_TEST_BYTECODE: "trim TEST_BYTECODE = TEST_BYTECODE"
  by (simp add: string_defs TEST_BYTECODE_def)

lemma length_sample: "length (js ''60006000f3'') = 10"
  by (simp add: js_def)

lemma length_TEST_BYTECODE: "length TEST_BYTECODE = 12"
  by (simp add: js_def TEST_BYTECODE_def)

lemma deployContract_wallet_ok:
  "deployContract (Some wallet_ok) (initial\<lparr>target := k, bytecode := TEST_BYTECODE\<rparr>) =
     (initial\<lparr>target := k, bytecode := TEST_BYTECODE, txHash := js ''0xfeed'',
        contractAddress := js ''0xc0de'', status := status_confirmed (js ''0xc0de'')\<rparr>,
      [SwitchEthereumChain (js ''0xaa36a7''), GetSigner,
       SendTransaction \<lparr> data = TEST_BYTECODE, gasLimit = 70000 \<rparr>, WaitForReceipt])"
proof -
  have 1: "TEST_BYTECODE \<noteq> []" "startsWith TEST_BYTECODE (js ''0x'')" "js ''0xc0de'' \<noteq> []"
    by (simp_all add: TEST_BYTECODE_def js_def startsWith_def)
  have 2: "getSigner wallet_ok = Inr ()" "sendTransaction wallet_ok r = Inr sample_tx" for r
    by (simp_all add: wallet_ok_def)
  show ?thesis
    by (simp add: deployContract_def deployContract_try_def ensureNetwork_wallet_ok 1 2
        trim_TEST_BYTECODE length_TEST_BYTECODE dataHex_def receipt_addr_def Let_def
        sample_tx_def initial_def)
qed

text \<open>The list of effects agrees with the handlers: replaying it gives their result.\<close>

lemma replay_append: "replay (xs @ ys) s = replay ys (replay xs s)"
  by (simp add: replay_def)

lemma replay_Nil: "replay [] s = s"
  by (simp add: replay_def)

lemma replay_Cons: "replay (e # evs) s = replay evs (apply_event e s)"
  by (simp add: replay_def)

lemma requests_append: "requests (xs @ ys) = requests xs @ requests ys"
  by (induction xs rule: requests.induct) simp_all

lemma ensureNetwork_log_sound:
  "ensureNetwork env k s =
     (fst (ensureNetwork_log env k), replay (snd (ensureNetwork_log env k)) s,
      requests (snd (ensureNetwork_log env k)))"
  by (simp add: ensureNetwork_def ensureNetwork_log_def Let_def replay_Cons replay_Nil
      split: option.split sum.split)

lemma deployContract_log_sound:
  "deployContract env s = (replay (deployContract_log env s) s, requests (deployContract_log env s))"
proof (cases env)
  case None
  then show ?thesis
    by (simp add: deployContract_absent deployContract_log_def deployContract_try_log_def
        replay_Cons replay_Nil)
next
  case (Some eth)
  obtain ok evs1 where l: "ensureNetwork_log (Some eth) sepolia = (ok, evs1)"
    by (cases "ensureNetwork_log (Some eth) sepolia") auto
  have en: "ensureNetwork (Some eth) sepolia s' = (ok, replay evs1 s', requests evs1)" for s'
    using ensureNetwork_log_sound [of "Some eth" sepolia s'] by (simp add: l)
  show ?thesis
    by (cases s)
      (simp add: Some deployContract_def deployContract_try_def deployContract_log_def
        deployContract_try_log_def en l Let_def replay_Cons replay_Nil replay_append requests_append
        split: sum.split)
qed

lemma ensureNetwork_log_first:
  "ensureNetwork_log (Some eth) k = (ok, evs1) \<Longrightarrow>
     \<exists>more. evs1 = Request (SwitchEthereumChain (chainIdHex (CHAINS k))) # more"
  by (auto simp: ensureNetwork_log_def Let_def split: sum.splits if_splits)

lemma deployContract_log_accepted:
  assumes "4 \<le> length (trim (bytecode s))"
  shows "\<exists>more. deployContract_log (Some eth) s =
     [SetStatus [], SetTxHash [], SetContractAddress [],
      Request (SwitchEthereumChain (js ''0xaa36a7''))] @ more"
proof -
  obtain ok evs1 where l: "ensureNetwork_log (Some eth) sepolia = (ok, evs1)"
    by (cases "ensureNetwork_log (Some eth) sepolia") auto
  from ensureNetwork_log_first [OF l] obtain more where
    m: "evs1 = Request (SwitchEthereumChain (js ''0xaa36a7'')) # more"
    by (auto simp: sepolia_chainIdHex)
  from assms trim_nonempty [OF assms] show ?thesis
    by (simp add: deployContract_log_def deployContract_try_log_def l m Let_def
        split: sum.split option.split)
qed

lemma deployContract_log_rejected:
  assumes "env = None \<or> length (trim (bytecode s)) < 4"
  shows "deployContract_log env s =
     [SetStatus [], SetTxHash [], SetContractAddress [],
      SetStatus (case env of None \<Rightarrow> status_metamask_required | Some _ \<Rightarrow> status_invalid_bytecode)]"
  using assms by (cases env) (auto simp: deployContract_log_def deployContract_try_log_def)

section \<open>Explorer links\<close>

text \<open>
  C7. For every observed wallet chain id and every selected target, the explorer base is
  the Sepolia profile's explorer URL when the observed id is 11155111 (Sepolia's decimal
  id), the Mainnet profile's explorer URL when it is 1 (Mainnet's decimal id), and the
  selected target's explorer URL otherwise (also when no chain id has been observed).
\<close>

theorem explorerBase_resolution:
  "explorerBase s =
     (if currentChainId s = Some 11155111 then blockExplorer (CHAINS sepolia)
      else if currentChainId s = Some 1 then blockExplorer (CHAINS mainnet)
      else blockExplorer (CHAINS (target s)))
   \<and> chainIdDec (CHAINS sepolia) = 11155111 \<and> chainIdDec (CHAINS mainnet) = 1"
  by (simp add: explorerBase_def CHAINS_def)

section \<open>Local handlers\<close>

text \<open>
  C8. From every session, the reset action empties the payload, the status, the
  transaction hash and the contract address in one step, and leaves the connected account,
  the selected target (and the observed chain id) as they were; it issues no request.
\<close>

theorem reset_clears:
  "bytecode (fst (reset s)) = [] \<and> status (fst (reset s)) = [] \<and> txHash (fst (reset s)) = []
   \<and> contractAddress (fst (reset s)) = []
   \<and> account (fst (reset s)) = account s \<and> target (fst (reset s)) = target s
   \<and> currentChainId (fst (reset s)) = currentChainId s \<and> snd (reset s) = []"
  by (simp add: reset_def)

text \<open>
  C9, as the claim states it, fails. The disconnect button is shown while an account is
  connected; pressing it does not empty the status (it becomes the message
  \<open>status_disconnected\<close>), and a transaction hash recorded earlier stays.
\<close>

theorem disconnect_status_counterexample:
  "status (fst (disconnect (initial\<lparr>account := Some (js ''0xa11ce''), txHash := js ''0xfeed''\<rparr>))) \<noteq> []
   \<and> txHash (fst (disconnect (initial\<lparr>account := Some (js ''0xa11ce''), txHash := js ''0xfeed''\<rparr>))) \<noteq> []"
  by (simp add: disconnect_def status_disconnected_def js_def)

text \<open>
  C9, amended. From every session, disconnecting is purely local: it sets the stored
  account to none and the status to the fixed, non-empty message \<open>status_disconnected\<close>
  (the source's literal, with \<open>0xE9\<close> for e acute), leaves every other field (payload,
  transaction hash, contract address, observed chain id, target) unchanged, and issues no
  wallet-provider request.
\<close>

theorem disconnect_local:
  "fst (disconnect s) = s\<lparr>account := None, status := status_disconnected\<rparr>
   \<and> status_disconnected = js ''D'' @ [0xE9] @ js ''connect'' @ [0xE9] @ js ''.''
   \<and> status_disconnected \<noteq> []
   \<and> snd (disconnect s) = []"
  by (simp add: disconnect_def status_disconnected_def js_def)

section \<open>\<open>ensureNetwork\<close>: switch, else add\<close>

text \<open>
  C2. For every target key, with a wallet present: if the switch request fails with code
  4902, the requests are the switch followed by exactly one add-chain request carrying that
  network's declared chain id, display name, native currency, RPC URLs and explorer URL,
  and the result of \<open>ensureNetwork\<close> is whether that add request succeeded; if the switch
  fails with any other code (or none), the switch is the only request and the result is
  failure.
\<close>

theorem ensureNetwork_unknown_chain:
  assumes "wallet_switchEthereumChain eth (chainIdHex (CHAINS k)) = Inl err"
  shows "(code err = Some 4902 \<longrightarrow>
            snd (snd (ensureNetwork (Some eth) k s)) =
              [SwitchEthereumChain (chainIdHex (CHAINS k)),
               AddEthereumChain
                 \<lparr> chainId = chainIdHex (CHAINS k),
                   chainName = name (CHAINS k),
                   nativeCurrency = currency (CHAINS k),
                   add_rpcUrls = rpcUrls (CHAINS k),
                   blockExplorerUrls = [blockExplorer (CHAINS k)] \<rparr>]
          \<and> fst (ensureNetwork (Some eth) k s) =
              (case wallet_addEthereumChain eth (add_params (CHAINS k)) of
                 Inl _ \<Rightarrow> False | Inr _ \<Rightarrow> True))
       \<and> (code err \<noteq> Some 4902 \<longrightarrow>
            snd (snd (ensureNetwork (Some eth) k s)) = [SwitchEthereumChain (chainIdHex (CHAINS k))]
          \<and> fst (ensureNetwork (Some eth) k s) = False)"
  using assms by (simp add: ensureNetwork_def add_params_def Let_def split: sum.split)

text \<open>
  On a wallet that answers 4902 the Mainnet profile is sent in full and the result is
  success; on a wallet that answers 4001 nothing follows the switch.
\<close>

theorem ensureNetwork_unknown_chain_witness:
  "snd (snd (ensureNetwork (Some wallet_unknown_chain) mainnet initial)) =
     [SwitchEthereumChain (js ''0x1''),
      AddEthereumChain
        \<lparr> chainId = js ''0x1'',
          chainName = js ''Ethereum Mainnet'',
          nativeCurrency = \<lparr> currency_name = js ''Ether'', symbol = js ''ETH'', decimals = 18 \<rparr>,
          add_rpcUrls = [js ''https://rpc.ankr.com/eth''],
          blockExplorerUrls = [js ''https://etherscan.io''] \<rparr>]
   \<and> fst (ensureNetwork (Some wallet_unknown_chain) mainnet initial) = True
   \<and> snd (snd (ensureNetwork (Some wallet_refuses) sepolia initial)) =
       [SwitchEthereumChain (js ''0xaa36a7'')]
   \<and> fst (ensureNetwork (Some wallet_refuses) sepolia initial) = False"
proof -
  have a: "wallet_switchEthereumChain wallet_unknown_chain (chainIdHex (CHAINS mainnet))
             = Inl (rejected 4902 (js ''Unrecognized chain ID''))"
    by (simp add: wallet_unknown_chain_def)
  have b: "wallet_switchEthereumChain wallet_refuses (chainIdHex (CHAINS sepolia))
             = Inl (rejected 4001 (js ''User rejected the request''))"
    by (simp add: wallet_refuses_def)
  show ?thesis
    using ensureNetwork_unknown_chain [OF a, of initial] ensureNetwork_unknown_chain [OF b, of initial]
    by (simp add: rejected_def CHAINS_def add_params_def wallet_unknown_chain_def wallet_ok_def)
qed

section \<open>\<open>connectWallet\<close>: network first, then accounts\<close>

text \<open>
  C3. In every run of \<open>connectWallet\<close>: if \<open>ensureNetwork\<close> for the selected target
  fails, the requests of the run are those of \<open>ensureNetwork\<close> alone, no account-access
  request is among them, and the stored account is untouched; if it succeeds, exactly one
  account-access request follows the network requests, and when the wallet answers with a
  list of accounts the first one becomes the connected account.
\<close>

theorem connect_network_first:
  assumes "ensureNetwork env (target s) s = (ok, s1, rs1)"
  shows "(\<not> ok \<longrightarrow>
            snd (connectWallet env s) = rs1
          \<and> RequestAccounts \<notin> set (snd (connectWallet env s))
          \<and> account (fst (connectWallet env s)) = account s)
       \<and> (ok \<longrightarrow>
            snd (connectWallet env s) = rs1 @ [RequestAccounts]
          \<and> RequestAccounts \<notin> set rs1
          \<and> (\<forall>eth a rest. env = Some eth \<longrightarrow> eth_requestAccounts eth = Inr (a # rest) \<longrightarrow>
                account (fst (connectWallet env s)) = Some a
              \<and> status (fst (connectWallet env s)) = status_connected))"
  using assms
  by (auto simp: connectWallet_def connectWallet_try_def ensureNetwork_def Let_def
      split: option.splits sum.splits if_splits)

text \<open>
  A granting wallet is asked for accounts after the switch and its first account is
  stored; a wallet that refuses the switch to Mainnet is never asked for accounts.
\<close>

theorem connect_network_first_witness:
  "snd (connectWallet (Some wallet_ok) initial) = [SwitchEthereumChain (js ''0xaa36a7''), RequestAccounts]
   \<and> account (fst (connectWallet (Some wallet_ok) initial)) = Some (js ''0xa11ce'')
   \<and> snd (connectWallet (Some wallet_refuses) (initial\<lparr>target := mainnet\<rparr>)) = [SwitchEthereumChain (js ''0x1'')]
   \<and> account (fst (connectWallet (Some wallet_refuses) (initial\<lparr>target := mainnet\<rparr>))) = None"
proof -
  have a: "ensureNetwork (Some wallet_ok) (target initial) initial =
     (True, initial\<lparr>status := status_switched (js ''Sepolia Testnet'')\<rparr>,
      [SwitchEthereumChain (js ''0xaa36a7'')])"
    by (simp add: ensureNetwork_def sample_defs Let_def)
  have b: "ensureNetwork (Some wallet_refuses) (target (initial\<lparr>target := mainnet\<rparr>)) (initial\<lparr>target := mainnet\<rparr>) =
     (False, initial\<lparr>target := mainnet, status := status_switch_refused\<rparr>,
      [SwitchEthereumChain (js ''0x1'')])"
    by (simp add: ensureNetwork_def sample_defs Let_def)
  have c: "eth_requestAccounts wallet_ok = Inr (js ''0xa11ce'' # [js ''0xb0b''])"
    by (simp add: wallet_ok_def)
  from connect_network_first [OF a] c
  have 1: "snd (connectWallet (Some wallet_ok) initial) = [SwitchEthereumChain (js ''0xaa36a7''), RequestAccounts]
    \<and> account (fst (connectWallet (Some wallet_ok) initial)) = Some (js ''0xa11ce'')"
    by simp
  from connect_network_first [OF b]
  have 2: "snd (connectWallet (Some wallet_refuses) (initial\<lparr>target := mainnet\<rparr>)) = [SwitchEthereumChain (js ''0x1'')]
    \<and> account (fst (connectWallet (Some wallet_refuses) (initial\<lparr>target := mainnet\<rparr>))) = None"
    by (simp add: initial_def)
  from 1 2 show ?thesis by simp
qed

section \<open>\<open>deployContract\<close>\<close>

text \<open>
  C10. Every run of \<open>deployContract\<close> starts with \<open>setStatus("")\<close>, \<open>setTxHash("")\<close>
  and \<open>setContractAddress("")\<close>, before it looks at the provider or the payload: these
  are the first three effects of every run, and replaying the effects gives the handler's
  result, which is also the result of a run from the session with the three fields
  emptied. When a wallet is present and the payload is accepted, a request follows, only
  these three setters precede the first one, and the session at that moment is the
  starting one with status, transaction hash and contract address empty. A run rejected
  locally (no provider, or a payload under 4 trimmed characters) consists of the three
  clearing setters and the rejection status, issues no request, and ends with an empty
  transaction hash and contract address, whatever an earlier deploy had recorded.
\<close>

theorem deploy_clears_first:
  "take 3 (deployContract_log env s) = [SetStatus [], SetTxHash [], SetContractAddress []]
   \<and> deployContract env s =
       (replay (deployContract_log env s) s, requests (deployContract_log env s))
   \<and> deployContract env s = deployContract env (s\<lparr>status := [], txHash := [], contractAddress := []\<rparr>)
   \<and> (env \<noteq> None \<and> 4 \<le> length (trim (bytecode s)) \<longrightarrow>
        requests (deployContract_log env s) \<noteq> []
      \<and> before_first_request (deployContract_log env s) =
          [SetStatus [], SetTxHash [], SetContractAddress []]
      \<and> replay (before_first_request (deployContract_log env s)) s =
          s\<lparr>status := [], txHash := [], contractAddress := []\<rparr>)
   \<and> (env = None \<or> length (trim (bytecode s)) < 4 \<longrightarrow>
        deployContract_log env s =
          [SetStatus [], SetTxHash [], SetContractAddress [],
           SetStatus (case env of None \<Rightarrow> status_metamask_required
                      | Some _ \<Rightarrow> status_invalid_bytecode)]
      \<and> txHash (fst (deployContract env s)) = []
      \<and> contractAddress (fst (deployContract env s)) = []
      \<and> fst (deployContract env s) =
          s\<lparr>status := (case env of None \<Rightarrow> status_metamask_required | Some _ \<Rightarrow> status_invalid_bytecode),
            txHash := [], contractAddress := []\<rparr>
      \<and> snd (deployContract env s) = [])"
proof -
  have 1: "take 3 (deployContract_log env s) = [SetStatus [], SetTxHash [], SetContractAddress []]"
    by (simp add: deployContract_log_def)
  note 2 = deployContract_log_sound [of env s]
  have 3: "deployContract env s = deployContract env (s\<lparr>status := [], txHash := [], contractAddress := []\<rparr>)"
    by (simp add: deployContract_def)
  have 4: "requests (deployContract_log env s) \<noteq> []
      \<and> before_first_request (deployContract_log env s) =
          [SetStatus [], SetTxHash [], SetContractAddress []]
      \<and> replay (before_first_request (deployContract_log env s)) s =
          s\<lparr>status := [], txHash := [], contractAddress := []\<rparr>"
    if "env \<noteq> None" "4 \<le> length (trim (bytecode s))"
  proof -
    from that(1) obtain eth where e: "env = Some eth" by auto
    from deployContract_log_accepted [OF that(2), of eth] obtain more where
      "deployContract_log env s =
         [SetStatus [], SetTxHash [], SetContractAddress [],
          Request (SwitchEthereumChain (js ''0xaa36a7''))] @ more"
      by (auto simp: e)
    then show ?thesis
      by (simp add: before_first_request_def replay_Cons replay_Nil)
  qed
  have 5: "deployContract_log env s =
          [SetStatus [], SetTxHash [], SetContractAddress [],
           SetStatus (case env of None \<Rightarrow> status_metamask_required
                      | Some _ \<Rightarrow> status_invalid_bytecode)]
      \<and> deployContract env s =
        (s\<lparr>status := (case env of None \<Rightarrow> status_metamask_required | Some _ \<Rightarrow> status_invalid_bytecode),
           txHash := [], contractAddress := []\<rparr>, [])"
    if "env = None \<or> length (trim (bytecode s)) < 4"
    using that deployContract_log_rejected [OF that]
    by (cases env) (auto simp: deployContract_absent deployContract_invalid)
  from 1 2 3 4 5 show ?thesis
    by (simp only: simp_thms fst_conv snd_conv) auto
qed

text \<open>
  A successful deploy leaves a status, a hash and an address. A deploy without provider
  from that session is the three clearing setters and the notice; it, and a deploy of the
  payload \<open>0x\<close>, erase the hash and the address; a further accepted deploy reaches its
  first request with the status already empty.
\<close>

theorem deploy_clears_first_witness:
  "status (fst (deployContract (Some wallet_ok) (initial\<lparr>bytecode := TEST_BYTECODE\<rparr>))) \<noteq> []
   \<and> txHash (fst (deployContract (Some wallet_ok) (initial\<lparr>bytecode := TEST_BYTECODE\<rparr>))) = js ''0xfeed''
   \<and> contractAddress (fst (deployContract (Some wallet_ok) (initial\<lparr>bytecode := TEST_BYTECODE\<rparr>))) = js ''0xc0de''
   \<and> deployContract_log None
        (fst (deployContract (Some wallet_ok) (initial\<lparr>bytecode := TEST_BYTECODE\<rparr>))) =
       [SetStatus [], SetTxHash [], SetContractAddress [], SetStatus status_metamask_required]
   \<and> txHash (fst (deployContract None
        (fst (deployContract (Some wallet_ok) (initial\<lparr>bytecode := TEST_BYTECODE\<rparr>))))) = []
   \<and> contractAddress (fst (deployContract None
        (fst (deployContract (Some wallet_ok) (initial\<lparr>bytecode := TEST_BYTECODE\<rparr>))))) = []
   \<and> txHash (fst (deployContract (Some wallet_ok)
        (fst (deployContract (Some wallet_ok) (initial\<lparr>bytecode := TEST_BYTECODE\<rparr>))\<lparr>bytecode := js ''0x''\<rparr>))) = []
   \<and> contractAddress (fst (deployContract (Some wallet_ok)
        (fst (deployContract (Some wallet_ok) (initial\<lparr>bytecode := TEST_BYTECODE\<rparr>))\<lparr>bytecode := js ''0x''\<rparr>))) = []
   \<and> status (replay (before_first_request (deployContract_log (Some wallet_ok)
        (fst (deployContract (Some wallet_ok) (initial\<lparr>bytecode := TEST_BYTECODE\<rparr>)))))
        (fst (deployContract (Some wallet_ok) (initial\<lparr>bytecode := TEST_BYTECODE\<rparr>)))) = []"
proof -
  let ?prev = "fst (deployContract (Some wallet_ok) (initial\<lparr>bytecode := TEST_BYTECODE\<rparr>))"
  have p: "deployContract (Some wallet_ok) (initial\<lparr>bytecode := TEST_BYTECODE\<rparr>) =
     (initial\<lparr>bytecode := TEST_BYTECODE, txHash := js ''0xfeed'',
        contractAddress := js ''0xc0de'', status := status_confirmed (js ''0xc0de'')\<rparr>,
      [SwitchEthereumChain (js ''0xaa36a7''), GetSigner,
       SendTransaction \<lparr> data = TEST_BYTECODE, gasLimit = 70000 \<rparr>, WaitForReceipt])"
    using deployContract_wallet_ok [of sepolia] by (simp add: initial_def)
  have short: "length (trim (bytecode (?prev\<lparr>bytecode := js ''0x''\<rparr>))) < 4"
    by (simp add: string_defs)
  have long: "Some wallet_ok \<noteq> None \<and> 4 \<le> length (trim (bytecode ?prev))"
    by (simp add: p trim_TEST_BYTECODE length_TEST_BYTECODE)
  have a: "status ?prev \<noteq> [] \<and> txHash ?prev = js ''0xfeed'' \<and> contractAddress ?prev = js ''0xc0de''"
    by (simp add: p status_confirmed_def)
  note none = deploy_clears_first [of None ?prev, THEN conjunct2, THEN conjunct2, THEN conjunct2,
      THEN conjunct2, rule_format, OF disjI1, OF refl]
  have b: "deployContract_log None ?prev =
       [SetStatus [], SetTxHash [], SetContractAddress [], SetStatus status_metamask_required]
     \<and> txHash (fst (deployContract None ?prev)) = [] \<and> contractAddress (fst (deployContract None ?prev)) = []"
    using none by simp
  note inv = deploy_clears_first [of "Some wallet_ok" "?prev\<lparr>bytecode := js ''0x''\<rparr>", THEN conjunct2,
      THEN conjunct2, THEN conjunct2, THEN conjunct2, rule_format, OF disjI2, OF short]
  have c: "txHash (fst (deployContract (Some wallet_ok) (?prev\<lparr>bytecode := js ''0x''\<rparr>))) = []
         \<and> contractAddress (fst (deployContract (Some wallet_ok) (?prev\<lparr>bytecode := js ''0x''\<rparr>))) = []"
    using inv by blast
  note acc = deploy_clears_first [of "Some wallet_ok" ?prev, THEN conjunct2, THEN conjunct2,
      THEN conjunct2, THEN conjunct1, rule_format, OF long]
  have d: "status (replay (before_first_request (deployContract_log (Some wallet_ok) ?prev)) ?prev) = []"
    by (simp add: acc [THEN conjunct2, THEN conjunct2])
  from a b c d show ?thesis by blast
qed

text \<open>
  C4. For every payload whose trimmed length is under 4 (the empty payload included),
  \<open>deployContract\<close> issues no request at all and leaves a non-empty status: the
  instruction to paste a valid bytecode when a wallet is present, the notice that MetaMask
  is required when none is (that check comes first). Nothing else changes but the emptied
  transaction hash and contract address.
\<close>

theorem deploy_rejects_short_payload:
  assumes "length (trim (bytecode s)) < 4"
  shows "snd (deployContract env s) = []
       \<and> status (fst (deployContract env s)) =
           (case env of None \<Rightarrow> status_metamask_required | Some _ \<Rightarrow> status_invalid_bytecode)
       \<and> status (fst (deployContract env s)) \<noteq> []
       \<and> fst (deployContract env s) =
           s\<lparr>status := status (fst (deployContract env s)), txHash := [], contractAddress := []\<rparr>"
  using assms
  by (simp add: deployContract_def deployContract_try_def status_metamask_required_def
      status_invalid_bytecode_def js_def split: option.split)

text \<open>
  The empty payload and a payload of six code units, three of them after trimming.
\<close>

theorem deploy_rejects_short_payload_witness:
  "snd (deployContract (Some wallet_ok) initial) = []
   \<and> status (fst (deployContract (Some wallet_ok) initial)) = status_invalid_bytecode
   \<and> snd (deployContract (Some wallet_ok) (initial\<lparr>bytecode := js ''  0x6 ''\<rparr>)) = []
   \<and> status (fst (deployContract (Some wallet_ok) (initial\<lparr>bytecode := js ''  0x6 ''\<rparr>))) = status_invalid_bytecode"
proof -
  have a: "length (trim (bytecode initial)) < 4"
    by (simp add: initial_def trim_def)
  have b: "length (trim (bytecode (initial\<lparr>bytecode := js ''  0x6 ''\<rparr>))) < 4"
    by (simp add: string_defs)
  show ?thesis
    using deploy_rejects_short_payload [OF a, of "Some wallet_ok"]
      deploy_rejects_short_payload [OF b, of "Some wallet_ok"]
    by simp
qed

text \<open>
  C1. In every run of \<open>deployContract\<close>, whatever the selected target: a transaction
  is submitted only after \<open>ensureNetwork\<close> was called for Sepolia and returned success
  (its requests, starting with the switch to chain id \<open>0xaa36a7\<close>, come first and contain
  no transaction); when that call fails no transaction is submitted, and the run ends with
  the session and requests of that call; once the provider and payload checks are passed
  the requests of the run always start with those of that call; and the requests of the
  run do not depend on the selected target.
\<close>

theorem deploy_forces_sepolia:
  assumes "ensureNetwork env sepolia (s\<lparr>status := [], txHash := [], contractAddress := []\<rparr>) = (ok, s1, rs1)"
  shows "(SendTransaction req \<in> set (snd (deployContract env s)) \<longrightarrow>
            ok
          \<and> (\<exists>more. rs1 = SwitchEthereumChain (js ''0xaa36a7'') # more)
          \<and> SendTransaction req \<notin> set rs1
          \<and> (\<exists>post. snd (deployContract env s) = rs1 @ GetSigner # SendTransaction req # post))
       \<and> (\<not> ok \<longrightarrow> (\<forall>r. SendTransaction r \<notin> set (snd (deployContract env s))))
       \<and> (env \<noteq> None \<and> 4 \<le> length (trim (bytecode s)) \<longrightarrow>
            (\<exists>more. rs1 = SwitchEthereumChain (js ''0xaa36a7'') # more)
          \<and> (\<exists>post. snd (deployContract env s) = rs1 @ post)
          \<and> (\<not> ok \<longrightarrow> deployContract env s = (s1, rs1)))
       \<and> (\<forall>k. snd (deployContract env (s\<lparr>target := k\<rparr>)) = snd (deployContract env s))"
proof (cases env)
  case None
  then show ?thesis by (simp add: deployContract_absent)
next
  case (Some eth)
  with assms have en:
    "ensureNetwork (Some eth) sepolia (s\<lparr>status := [], txHash := [], contractAddress := []\<rparr>) = (ok, s1, rs1)"
    by simp
  have tgt: "snd (deployContract (Some eth) (s\<lparr>target := k\<rparr>)) = snd (deployContract (Some eth) s)" for k
  proof (cases "length (trim (bytecode s)) < 4")
    case True
    then show ?thesis by (simp add: deployContract_invalid)
  next
    case False
    then have len: "4 \<le> length (trim (bytecode s))" "4 \<le> length (trim (bytecode (s\<lparr>target := k\<rparr>)))"
      by simp_all
    have sw: "s\<lparr>target := k\<rparr>\<lparr>status := [], txHash := [], contractAddress := []\<rparr>
        = s\<lparr>status := [], txHash := [], contractAddress := []\<rparr>\<lparr>target := k\<rparr>"
      by (cases s) simp
    have en': "ensureNetwork (Some eth) sepolia (s\<lparr>target := k\<rparr>\<lparr>status := [], txHash := [], contractAddress := []\<rparr>)
        = (ok, s1\<lparr>target := k\<rparr>, rs1)"
      unfolding sw by (simp add: ensureNetwork_target en)
    show ?thesis
      by (simp add: deployContract_requests [OF len(1) en] deployContract_requests [OF len(2) en']
          split: sum.split)
  qed
  show ?thesis
  proof (cases "length (trim (bytecode s)) < 4")
    case True
    with Some tgt show ?thesis by (simp add: deployContract_invalid)
  next
    case False
    then have len: "4 \<le> length (trim (bytecode s))" by simp
    note rq = deployContract_requests [OF len en]
    note nr = ensureNetwork_requests [OF en]
    from ensureNetwork_first_request [OF en]
    have first: "\<exists>more. rs1 = SwitchEthereumChain (js ''0xaa36a7'') # more"
      by (simp add: sepolia_chainIdHex)
    have 1: "SendTransaction req \<in> set (snd (deployContract env s)) \<longrightarrow>
            ok \<and> SendTransaction req \<notin> set rs1
          \<and> (\<exists>post. snd (deployContract env s) = rs1 @ GetSigner # SendTransaction req # post)"
      using nr [of req] by (auto simp: Some rq split: if_splits sum.splits)
    have 2: "\<not> ok \<longrightarrow> (\<forall>r. SendTransaction r \<notin> set (snd (deployContract env s)))"
      using nr by (simp add: Some rq)
    have 3: "\<exists>post. snd (deployContract env s) = rs1 @ post"
      by (simp add: Some rq split: sum.split)
    have 4: "\<not> ok \<longrightarrow> deployContract env s = (s1, rs1)"
      using trim_nonempty [OF len] len
      by (simp add: Some deployContract_def deployContract_try_def en)
    from 1 2 3 4 first tgt Some show ?thesis by blast
  qed
qed

text \<open>
  With Mainnet selected, a granting wallet is switched to Sepolia before the transaction;
  a wallet that refuses the switch sees the switch request only.
\<close>

theorem deploy_forces_sepolia_witness:
  "snd (deployContract (Some wallet_ok) (initial\<lparr>target := mainnet, bytecode := TEST_BYTECODE\<rparr>)) =
     [SwitchEthereumChain (js ''0xaa36a7''), GetSigner,
      SendTransaction \<lparr> data = TEST_BYTECODE, gasLimit = 70000 \<rparr>, WaitForReceipt]
   \<and> deployContract (Some wallet_refuses) (initial\<lparr>target := mainnet, bytecode := TEST_BYTECODE\<rparr>) =
     (initial\<lparr>target := mainnet, bytecode := TEST_BYTECODE, status := status_switch_refused\<rparr>,
      [SwitchEthereumChain (js ''0xaa36a7'')])"
proof -
  let ?s = "initial\<lparr>target := mainnet, bytecode := TEST_BYTECODE\<rparr>"
  let ?c = "?s\<lparr>status := [], txHash := [], contractAddress := []\<rparr>"
  have len: "4 \<le> length (trim (bytecode ?s))"
    by (simp add: trim_TEST_BYTECODE length_TEST_BYTECODE)
  have s0: "?c = ?s"
    by (simp add: initial_def)
  have a: "ensureNetwork (Some wallet_ok) sepolia ?c =
      (True, ?c\<lparr>status := status_switched (js ''Sepolia Testnet'')\<rparr>, [SwitchEthereumChain (js ''0xaa36a7'')])"
    by (rule ensureNetwork_wallet_ok)
  have b: "ensureNetwork (Some wallet_refuses) sepolia ?c =
      (False, ?c\<lparr>status := status_switch_refused\<rparr>, [SwitchEthereumChain (js ''0xaa36a7'')])"
    by (rule ensureNetwork_wallet_refuses)
  have sent: "SendTransaction \<lparr> data = TEST_BYTECODE, gasLimit = 70000 \<rparr>
      \<in> set (snd (deployContract (Some wallet_ok) ?s))"
    by (simp add: deployContract_wallet_ok)
  from deploy_forces_sepolia [OF a, of "\<lparr> data = TEST_BYTECODE, gasLimit = 70000 \<rparr>"] sent
  have "\<exists>post. snd (deployContract (Some wallet_ok) ?s) =
      [SwitchEthereumChain (js ''0xaa36a7'')] @ GetSigner # SendTransaction \<lparr> data = TEST_BYTECODE, gasLimit = 70000 \<rparr> # post"
    by blast
  then have 1: "snd (deployContract (Some wallet_ok) ?s) =
     [SwitchEthereumChain (js ''0xaa36a7''), GetSigner,
      SendTransaction \<lparr> data = TEST_BYTECODE, gasLimit = 70000 \<rparr>, WaitForReceipt]"
    by (simp add: deployContract_wallet_ok)
  from deploy_forces_sepolia [OF b] len
  have 2: "deployContract (Some wallet_refuses) ?s =
     (?c\<lparr>status := status_switch_refused\<rparr>, [SwitchEthereumChain (js ''0xaa36a7'')])"
    by blast
  from 1 2 show ?thesis
    by (simp add: initial_def)
qed

text \<open>
  C5. Every transaction \<open>deployContract\<close> submits carries as data the payload itself
  when the payload starts with \<open>0x\<close>, and \<open>0x\<close> followed by the payload otherwise; for
  the payload \<open>60006000f3\<close> the data is \<open>0x60006000f3\<close>. Such a transaction is
  submitted whenever a wallet is present, the payload has at least 4 trimmed characters,
  the switch to Sepolia succeeds and the signer is obtained.
\<close>

theorem deploy_data_prefix:
  "(SendTransaction req \<in> set (snd (deployContract env s)) \<longrightarrow>
      data req = (if startsWith (bytecode s) (js ''0x'') then bytecode s else js ''0x'' @ bytecode s)
    \<and> (bytecode s = js ''60006000f3'' \<longrightarrow> data req = js ''0x60006000f3''))
   \<and> (\<forall>eth u. env = Some eth \<and> 4 \<le> length (trim (bytecode s))
         \<and> fst (ensureNetwork env sepolia (s\<lparr>status := [], txHash := [], contractAddress := []\<rparr>))
         \<and> getSigner eth = Inr u \<longrightarrow>
       SendTransaction
         \<lparr> data = (if startsWith (bytecode s) (js ''0x'') then bytecode s else js ''0x'' @ bytecode s),
           gasLimit = 70000 \<rparr> \<in> set (snd (deployContract env s)))"
proof -
  have lit: "dataHex (js ''60006000f3'') = js ''0x60006000f3''"
    by (simp add: string_defs)
  have a: "data req = dataHex (bytecode s)"
    if sent: "SendTransaction req \<in> set (snd (deployContract env s))"
  proof (cases env)
    case None
    with sent show ?thesis by (simp add: deployContract_absent)
  next
    case (Some eth)
    show ?thesis
    proof (cases "length (trim (bytecode s)) < 4")
      case True
      with sent Some show ?thesis by (simp add: deployContract_invalid)
    next
      case False
      obtain ok s1 rs1 where en:
        "ensureNetwork (Some eth) sepolia (s\<lparr>status := [], txHash := [], contractAddress := []\<rparr>) = (ok, s1, rs1)"
        using prod_cases3 by blast
      from False have len: "4 \<le> length (trim (bytecode s))" by simp
      from sent Some ensureNetwork_requests [OF en, of req] show ?thesis
        by (auto simp: deployContract_requests [OF len en] split: if_splits sum.splits)
    qed
  qed
  have b: "SendTransaction \<lparr> data = dataHex (bytecode s), gasLimit = 70000 \<rparr> \<in> set (snd (deployContract env s))"
    if "env = Some eth" "4 \<le> length (trim (bytecode s))"
       "fst (ensureNetwork env sepolia (s\<lparr>status := [], txHash := [], contractAddress := []\<rparr>))"
       "getSigner eth = Inr u" for eth u
  proof -
    obtain ok s1 rs1 where en:
      "ensureNetwork (Some eth) sepolia (s\<lparr>status := [], txHash := [], contractAddress := []\<rparr>) = (ok, s1, rs1)"
      using prod_cases3 by blast
    with that have ok by simp
    with that show ?thesis
      by (simp add: deployContract_requests [OF that(2) en] split: sum.split)
  qed
  from a lit have 1: "SendTransaction req \<in> set (snd (deployContract env s)) \<longrightarrow>
      data req = (if startsWith (bytecode s) (js ''0x'') then bytecode s else js ''0x'' @ bytecode s)
    \<and> (bytecode s = js ''60006000f3'' \<longrightarrow> data req = js ''0x60006000f3'')"
    by (auto simp: dataHex_def)
  from b [unfolded dataHex_def] have 2: "\<forall>eth u. env = Some eth \<and> 4 \<le> length (trim (bytecode s))
         \<and> fst (ensureNetwork env sepolia (s\<lparr>status := [], txHash := [], contractAddress := []\<rparr>))
         \<and> getSigner eth = Inr u \<longrightarrow>
       SendTransaction
         \<lparr> data = (if startsWith (bytecode s) (js ''0x'') then bytecode s else js ''0x'' @ bytecode s),
           gasLimit = 70000 \<rparr> \<in> set (snd (deployContract env s))"
    by blast
  from 1 2 show ?thesis by blast
qed

text \<open>
  The payloads \<open>60006000f3\<close> and \<open>0x60006000f3\<close> are both submitted as
  \<open>0x60006000f3\<close>.
\<close>

theorem deploy_data_prefix_witness:
  "SendTransaction \<lparr> data = js ''0x60006000f3'', gasLimit = 70000 \<rparr>
     \<in> set (snd (deployContract (Some wallet_ok) (initial\<lparr>bytecode := js ''60006000f3''\<rparr>)))
   \<and> SendTransaction \<lparr> data = js ''0x60006000f3'', gasLimit = 70000 \<rparr>
     \<in> set (snd (deployContract (Some wallet_ok) (initial\<lparr>bytecode := js ''0x60006000f3''\<rparr>)))"
proof -
  have s: "\<not> startsWith (js ''60006000f3'') (js ''0x'')" "startsWith (js ''0x60006000f3'') (js ''0x'')"
    by (simp_all add: string_defs)
  have t: "trim (js ''0x60006000f3'') = js ''0x60006000f3''" "length (js ''0x60006000f3'') = 12"
    using trim_TEST_BYTECODE length_TEST_BYTECODE by (simp_all add: TEST_BYTECODE_def)
  have g: "getSigner wallet_ok = Inr ()"
    by (simp add: wallet_ok_def)
  have c: "js ''0x'' @ js ''60006000f3'' = js ''0x60006000f3''"
    by (simp add: js_def)
  from deploy_data_prefix [of _ "Some wallet_ok" "initial\<lparr>bytecode := js ''60006000f3''\<rparr>"]
  have 1: "SendTransaction \<lparr> data = js ''0x60006000f3'', gasLimit = 70000 \<rparr>
     \<in> set (snd (deployContract (Some wallet_ok) (initial\<lparr>bytecode := js ''60006000f3''\<rparr>)))"
    by (simp add: s g c trim_sample length_sample ensureNetwork_wallet_ok)
  from deploy_data_prefix [of _ "Some wallet_ok" "initial\<lparr>bytecode := js ''0x60006000f3''\<rparr>"]
  have 2: "SendTransaction \<lparr> data = js ''0x60006000f3'', gasLimit = 70000 \<rparr>
     \<in> set (snd (deployContract (Some wallet_ok) (initial\<lparr>bytecode := js ''0x60006000f3''\<rparr>)))"
    by (simp add: s g t ensureNetwork_wallet_ok)
  from 1 2 show ?thesis by simp
qed

text \<open>
  C6. When the transaction has been submitted and the wait for its confirmation throws,
  the body of the \<open>try\<close> ends with that thrown value, the handler catches it
  (\<open>deployContract\<close> returns a session), the status is \<open>Erreur: \<close> followed by the text
  of the error (its message when it has a non-empty one), the transaction hash recorded at
  submission is still there, and the contract address stays empty.
\<close>

theorem deploy_failure_after_submission:
  assumes "4 \<le> length (trim (bytecode s))"
    and "fst (ensureNetwork (Some eth) sepolia (s\<lparr>status := [], txHash := [], contractAddress := []\<rparr>))"
    and "getSigner eth = Inr u"
    and "sendTransaction eth \<lparr> data = dataHex (bytecode s), gasLimit = 70000 \<rparr> = Inr tx"
    and "wait tx = Inl e"
  shows "snd (snd (deployContract_try (Some eth) (s\<lparr>status := [], txHash := [], contractAddress := []\<rparr>))) = Some e
       \<and> status (fst (deployContract (Some eth) s)) = js ''Erreur: '' @ error_text e
       \<and> (\<forall>m. message e = Some m \<and> m \<noteq> [] \<longrightarrow>
             status (fst (deployContract (Some eth) s)) = js ''Erreur: '' @ m)
       \<and> txHash (fst (deployContract (Some eth) s)) = hash tx
       \<and> contractAddress (fst (deployContract (Some eth) s)) = []"
proof -
  obtain ok s1 rs1 where en:
    "ensureNetwork (Some eth) sepolia (s\<lparr>status := [], txHash := [], contractAddress := []\<rparr>) = (ok, s1, rs1)"
    using prod_cases3 by blast
  with assms(2) have ok: ok by simp
  have s1: "txHash s1 = [] \<and> contractAddress s1 = []"
    using en by (auto simp: ensureNetwork_def Let_def split: sum.splits if_splits)
  have ne: "bytecode s \<noteq> []" using trim_nonempty [OF assms(1)] .
  have body: "deployContract_try (Some eth) (s\<lparr>status := [], txHash := [], contractAddress := []\<rparr>) =
      (s1\<lparr>txHash := hash tx, status := status_sent\<rparr>,
       rs1 @ [GetSigner, SendTransaction \<lparr> data = dataHex (bytecode s), gasLimit = 70000 \<rparr>, WaitForReceipt],
       Some e)"
    using assms ne ok by (simp add: deployContract_try_def en Let_def)
  show ?thesis
    using s1 by (auto simp: deployContract_def body status_error_def error_text_def)
qed

text \<open>
  A wallet whose confirmation fails with the message \<open>transaction failed\<close>.
\<close>

theorem deploy_failure_after_submission_witness:
  "status (fst (deployContract (Some wallet_wait_fails) (initial\<lparr>bytecode := TEST_BYTECODE\<rparr>)))
     = js ''Erreur: transaction failed''
   \<and> txHash (fst (deployContract (Some wallet_wait_fails) (initial\<lparr>bytecode := TEST_BYTECODE\<rparr>)))
     = js ''0xfeed''
   \<and> contractAddress (fst (deployContract (Some wallet_wait_fails) (initial\<lparr>bytecode := TEST_BYTECODE\<rparr>)))
     = []"
proof -
  let ?s = "initial\<lparr>bytecode := TEST_BYTECODE\<rparr>"
  let ?tx = "\<lparr> hash = js ''0xfeed'', wait = Inl (rejected 0 (js ''transaction failed'')) \<rparr>"
  have 1: "4 \<le> length (trim (bytecode ?s))"
    by (simp add: trim_TEST_BYTECODE length_TEST_BYTECODE)
  have 2: "fst (ensureNetwork (Some wallet_wait_fails) sepolia (?s\<lparr>status := [], txHash := [], contractAddress := []\<rparr>))"
    by (simp add: ensureNetwork_wallet_wait_fails)
  have 3: "getSigner wallet_wait_fails = Inr ()"
    by (simp add: wallet_wait_fails_def wallet_ok_def)
  have 4: "sendTransaction wallet_wait_fails \<lparr> data = dataHex (bytecode ?s), gasLimit = 70000 \<rparr> = Inr ?tx"
    by (simp add: wallet_wait_fails_def)
  have 5: "wait ?tx = Inl (rejected 0 (js ''transaction failed''))"
    by simp
  have m: "message (rejected 0 (js ''transaction failed'')) = Some (js ''transaction failed'')"
    "js ''transaction failed'' \<noteq> []" "js ''Erreur: '' @ js ''transaction failed'' = js ''Erreur: transaction failed''"
    by (simp_all add: rejected_def js_def)
  note r = deploy_failure_after_submission [OF 1 2 3 4 5]
  have a: "status (fst (deployContract (Some wallet_wait_fails) ?s)) = js ''Erreur: '' @ js ''transaction failed''"
    by (rule r [THEN conjunct2, THEN conjunct2, THEN conjunct1, rule_format]) (rule conjI [OF m(1) m(2)])
  have b: "txHash (fst (deployContract (Some wallet_wait_fails) ?s)) = js ''0xfeed''"
    using r [THEN conjunct2, THEN conjunct2, THEN conjunct2, THEN conjunct1] by simp
  have c: "contractAddress (fst (deployContract (Some wallet_wait_fails) ?s)) = []"
    by (rule r [THEN conjunct2, THEN conjunct2, THEN conjunct2, THEN conjunct2])
  from a b c show ?thesis
    by (simp only: m(3) simp_thms)
qed

end
